theory Spec2Isabelle
  imports Main "HOL-Library.Char_ord" "HOL-Library.List_Lexorder"
begin

section \<open>Bytes, errors and outcomes\<close>

text \<open>
  A Go \<^verbatim>\<open>string\<close> and a \<^verbatim>\<open>[]byte\<close> are sequences of bytes; both are modelled as
  \<^typ>\<open>string\<close> (a list of 8-bit characters). The three bytes that cannot be written
  inside a literal get a name.
\<close>

definition backslash :: char where
  "backslash = CHR 0x5C"

definition dquote :: char where
  "dquote = CHR 0x22"

definition CRLF :: string where
  "CRLF = [CHR 0x0D, CHR 0x0A]"

text \<open>
  A Go \<^verbatim>\<open>error\<close> value: one made from a message (\<^verbatim>\<open>fmt.Errorf\<close>, \<^verbatim>\<open>errors.New\<close>), the
  error of the output sink, or the error of a byte source.
\<close>

datatype error = ErrorMsg string | WriteError | ReadError

text \<open>
  How a call ends: it returns \<^verbatim>\<open>nil\<close>, it returns an error, or it panics (a method
  called on a nil reader or a nil file).
\<close>

datatype outcome = OK | Err error | Panicked

section \<open>The collaborators: output sink and byte source\<close>

text \<open>
  The output sink is an \<^verbatim>\<open>io.Writer\<close>. It holds the bytes it has accepted; a sink with
  \<open>limit = Some l\<close> accepts \<open>l\<close> bytes in all and then fails, keeping the bytes that
  still fitted (a partial write is not rolled back). \<open>limit = None\<close> is a sink that never
  fails, such as the \<^verbatim>\<open>bytes.Buffer\<close> the endpoint methods use. A write that takes fewer
  bytes than it was given returns an error, as the contract of \<^verbatim>\<open>io.Writer\<close> asks.
\<close>

record sink =
  written :: string
  limit :: "nat option"

definition Write_sink :: "sink \<Rightarrow> string \<Rightarrow> outcome \<times> sink" where
  "Write_sink s d =
     (case limit s of
        None \<Rightarrow> (OK, s\<lparr>written := written s @ d\<rparr>)
      | Some l \<Rightarrow>
          if length (written s) + length d \<le> l
          then (OK, s\<lparr>written := written s @ d\<rparr>)
          else (Err WriteError, s\<lparr>written := written s @ take (l - length (written s)) d\<rparr>))"

text \<open>
  A byte source is an \<^verbatim>\<open>io.Reader\<close>: the chunks its successive \<^verbatim>\<open>Read\<close> calls deliver,
  and whether it then ends with a read error instead of \<^verbatim>\<open>io.EOF\<close>. An argument of type
  \<^verbatim>\<open>io.Reader\<close> is a \<^typ>\<open>'a option\<close>, \<open>None\<close> being the nil interface. Readers are
  values here: every reader handed to the builder is read once, from its start.
\<close>

record reader =
  chunks :: "string list"
  fails :: bool

text \<open>\<^verbatim>\<open>*os.File\<close>: the name as presented to \<^verbatim>\<open>Open\<close>, and the file as a byte source.\<close>

record os_File =
  Name :: string
  content :: reader

section \<open>Helpers of the Go standard library\<close>

subsection \<open>\<^verbatim>\<open>strings.Replacer\<close> and \<^verbatim>\<open>escapeQuotes\<close>\<close>

text \<open>
  \<^verbatim>\<open>quoteEscaper\<close> is a \<^verbatim>\<open>strings.Replacer\<close> with two pairs: a backslash is replaced
  by two backslashes, a double quote by a backslash and a double quote. Every old string is
  a single byte, so the replacer is a table from bytes to replacements (no entry: the byte
  is copied), applied to each byte of the input in turn.
\<close>

definition quoteEscaper :: "char \<Rightarrow> string option" where
  "quoteEscaper c =
     (if c = backslash then Some [backslash, backslash]
      else if c = dquote then Some [backslash, dquote]
      else None)"

fun Replace :: "(char \<Rightarrow> string option) \<Rightarrow> string \<Rightarrow> string" where
  "Replace r [] = []"
| "Replace r (c # s) = (case r c of None \<Rightarrow> [c] | Some new \<Rightarrow> new) @ Replace r s"

definition escapeQuotes :: "string \<Rightarrow> string" where
  "escapeQuotes s = Replace quoteEscaper s"

text \<open>
  The decoding the specification speaks of ("decoding the header yields back the original
  name"), written from the specification's escaping rule read backwards: a backslash
  followed by a backslash or a double quote stands for that second byte, every other byte
  stands for itself. \<open>spec_readQuoted\<close> reads a quoted string from just after its opening
  quote up to the first double quote that is not escaped, and returns the decoded content
  and the rest of the input.
\<close>

fun spec_unescapeQuotes :: "string \<Rightarrow> string" where
  "spec_unescapeQuotes (b # c # s) =
     (if b = backslash \<and> (c = backslash \<or> c = dquote)
      then c # spec_unescapeQuotes s
      else b # spec_unescapeQuotes (c # s))"
| "spec_unescapeQuotes s = s"

fun spec_readQuoted :: "string \<Rightarrow> (string \<times> string) option" where
  "spec_readQuoted [] = None"
| "spec_readQuoted [c] = (if c = dquote then Some ([], []) else None)"
| "spec_readQuoted (b # c # s) =
     (if b = dquote then Some ([], c # s)
      else if b = backslash \<and> (c = backslash \<or> c = dquote)
      then map_option (\<lambda>(v, rest). (c # v, rest)) (spec_readQuoted s)
      else map_option (\<lambda>(v, rest). (b # v, rest)) (spec_readQuoted (c # s)))"

subsection \<open>\<^verbatim>\<open>filepath.Base\<close> (Unix)\<close>

text \<open>
  \<^verbatim>\<open>filepath.Base\<close> with \<^verbatim>\<open>/\<close> as the only separator and no volume names: the empty
  path gives \<^verbatim>\<open>"."\<close>; trailing separators are stripped; the last element is what follows
  the last separator left; a path of separators only gives \<^verbatim>\<open>"/"\<close>.
\<close>

definition IsPathSeparator :: "char \<Rightarrow> bool" where
  "IsPathSeparator c = (c = CHR ''/'')"

fun stripTrailingSeparators :: "string \<Rightarrow> string" where
  "stripTrailingSeparators [] = []"
| "stripTrailingSeparators (c # s) =
     (let t = stripTrailingSeparators s
      in if t = [] \<and> IsPathSeparator c then [] else c # t)"

fun lastElement :: "string \<Rightarrow> string" where
  "lastElement [] = []"
| "lastElement (c # s) =
     (if list_ex IsPathSeparator s then lastElement s
      else if IsPathSeparator c then s else c # s)"

definition Base :: "string \<Rightarrow> string" where
  "Base path =
     (if path = [] then ''.''
      else let p = lastElement (stripTrailingSeparators path)
           in if p = [] then ''/'' else p)"

subsection \<open>\<^verbatim>\<open>strconv.Itoa\<close>\<close>

fun formatUint :: "nat \<Rightarrow> string" where
  "formatUint n =
     (if n < 10 then [''0123456789'' ! n]
      else formatUint (n div 10) @ [''0123456789'' ! (n mod 10)])"

declare formatUint.simps [simp del]

definition Itoa :: "int \<Rightarrow> string" where
  "Itoa i = (if i < 0 then ''-'' @ formatUint (nat (- i)) else formatUint (nat i))"

subsection \<open>\<^verbatim>\<open>textproto.MIMEHeader\<close>\<close>

text \<open>
  A header is a map from keys to lists of values, kept as an association list with distinct
  keys. \<^verbatim>\<open>Set\<close> replaces the values of a key by one value. (\<^verbatim>\<open>Set\<close> first brings the key
  into canonical form; the two keys the builder sets, \<^verbatim>\<open>Content-Disposition\<close> and
  \<^verbatim>\<open>Content-Type\<close>, are canonical already.)
\<close>

type_synonym MIMEHeader = "(string \<times> string list) list"

fun MIMEHeader_Set :: "MIMEHeader \<Rightarrow> string \<Rightarrow> string \<Rightarrow> MIMEHeader" where
  "MIMEHeader_Set [] k v = [(k, [v])]"
| "MIMEHeader_Set ((k', vs) # h) k v = (if k' = k then (k, [v]) # h else (k', vs) # MIMEHeader_Set h k v)"

definition Get_all :: "MIMEHeader \<Rightarrow> string \<Rightarrow> string list" where
  "Get_all h k = (case map_of h k of None \<Rightarrow> [] | Some vs \<Rightarrow> vs)"

section \<open>\<^verbatim>\<open>mime/multipart.Writer\<close>\<close>

text \<open>
  The writer of the Go standard library that the builder wraps: the sink, the boundary, and
  the last part it created (nil before the first part and after \<^verbatim>\<open>Close\<close>). A part
  remembers whether it was closed and the first write error it met.
\<close>

record part =
  p_closed :: bool
  p_we :: "error option"

record Writer =
  w_sink :: sink
  boundary :: string
  lastpart :: "part option"

text \<open>
  \<^verbatim>\<open>randomBoundary\<close> prints 30 bytes of \<^verbatim>\<open>crypto/rand\<close> with \<^verbatim>\<open>%x\<close>: two lower-case
  hexadecimal digits for each byte. The random bytes are a parameter of the model.
\<close>

definition hexByte :: "char \<Rightarrow> string" where
  "hexByte c =
     [''0123456789abcdef'' ! (of_char c div 16), ''0123456789abcdef'' ! (of_char c mod 16)]"

definition randomBoundary :: "string \<Rightarrow> string" where
  "randomBoundary rnd = concat (map hexByte rnd)"

definition NewWriter :: "sink \<Rightarrow> string \<Rightarrow> Writer" where
  "NewWriter body rnd = \<lparr>w_sink = body, boundary = randomBoundary rnd, lastpart = None\<rparr>"

text \<open>
  The header block of a part: the keys in sorted order, one line \<^verbatim>\<open>key: value\<close> for every
  value of a key.
\<close>

definition header_lines :: "MIMEHeader \<Rightarrow> string" where
  "header_lines h =
     concat (map (\<lambda>k. concat (map (\<lambda>v. k @ '': '' @ v @ CRLF) (Get_all h k)))
       (sort (map fst h)))"

text \<open>
  \<^verbatim>\<open>CreatePart\<close> closes the last part and returns the error that part met, if any; else it
  writes the delimiter (with a leading line break unless this is the first part), the header
  block and an empty line in one write, and makes a new part the last part. The part it
  returns is the writer's last part.
\<close>

definition CreatePart :: "Writer \<Rightarrow> MIMEHeader \<Rightarrow> outcome \<times> Writer" where
  "CreatePart mw header =
     (case (case lastpart mw of
              None \<Rightarrow> (None, None)
            | Some p \<Rightarrow> (p_we p, Some (p\<lparr>p_closed := True\<rparr>))) of
        (Some e, lp) \<Rightarrow> (Err e, mw\<lparr>lastpart := lp\<rparr>)
      | (None, lp) \<Rightarrow>
          (case Write_sink (w_sink mw)
                  ((if lastpart mw \<noteq> None then CRLF @ ''--'' @ boundary mw @ CRLF
                    else ''--'' @ boundary mw @ CRLF)
                   @ header_lines header @ CRLF) of
             (OK, s) \<Rightarrow> (OK, mw\<lparr>w_sink := s, lastpart := Some \<lparr>p_closed = False, p_we = None\<rparr>\<rparr>)
           | (r, s) \<Rightarrow> (r, mw\<lparr>w_sink := s, lastpart := lp\<rparr>)))"

text \<open>
  \<^verbatim>\<open>part.Write\<close>, on the writer's last part: a closed part refuses the write; a write error
  of the sink is kept in the part. Writing to a nil part panics.
\<close>

definition Write_part :: "Writer \<Rightarrow> string \<Rightarrow> outcome \<times> Writer" where
  "Write_part mw d =
     (case lastpart mw of
        None \<Rightarrow> (Panicked, mw)
      | Some p \<Rightarrow>
          if p_closed p then (Err (ErrorMsg ''multipart: can't write to finished part''), mw)
          else (case Write_sink (w_sink mw) d of
                  (Err e, s) \<Rightarrow> (Err e, mw\<lparr>w_sink := s, lastpart := Some (p\<lparr>p_we := Some e\<rparr>)\<rparr>)
                | (r, s) \<Rightarrow> (r, mw\<lparr>w_sink := s\<rparr>)))"

text \<open>
  \<^verbatim>\<open>io.Copy\<close> into the last part: each chunk the reader delivers is written (an empty
  chunk is skipped), the first write error ends the copy, and after the last chunk the
  reader's own error, if it has one, is returned. A nil reader panics at its first
  \<^verbatim>\<open>Read\<close>.
\<close>

fun copy_chunks :: "Writer \<Rightarrow> string list \<Rightarrow> outcome \<times> Writer" where
  "copy_chunks mw [] = (OK, mw)"
| "copy_chunks mw (c # cs) =
     (if c = [] then copy_chunks mw cs
      else (case Write_part mw c of
              (OK, mw') \<Rightarrow> copy_chunks mw' cs
            | (r, mw') \<Rightarrow> (r, mw')))"

definition io_Copy :: "Writer \<Rightarrow> reader option \<Rightarrow> outcome \<times> Writer" where
  "io_Copy mw src =
     (case src of
        None \<Rightarrow> (Panicked, mw)
      | Some r \<Rightarrow>
          (case copy_chunks mw (chunks r) of
             (OK, mw') \<Rightarrow> (if fails r then Err ReadError else OK, mw')
           | (e, mw') \<Rightarrow> (e, mw')))"

text \<open>
  The standard library's own form helpers, which \<^verbatim>\<open>createFormFile\<close> and \<^verbatim>\<open>WriteField\<close>
  call. They escape names with the library's own \<^verbatim>\<open>escapeQuotes\<close>, the two-pair replacer
  of which the repository's function is a copy; \<^verbatim>\<open>CreateFormFile\<close> puts the file name it is
  given into the header as it is, and declares the content \<^verbatim>\<open>application/octet-stream\<close>.
\<close>

definition Writer_CreateFormFile :: "Writer \<Rightarrow> string \<Rightarrow> string \<Rightarrow> outcome \<times> Writer" where
  "Writer_CreateFormFile mw fieldname filename =
     CreatePart mw
       (MIMEHeader_Set (MIMEHeader_Set [] ''Content-Disposition''
               (''form-data; name='' @ [dquote] @ escapeQuotes fieldname @ [dquote]
                @ ''; filename='' @ [dquote] @ escapeQuotes filename @ [dquote]))
          ''Content-Type'' ''application/octet-stream'')"

definition CreateFormField :: "Writer \<Rightarrow> string \<Rightarrow> outcome \<times> Writer" where
  "CreateFormField mw fieldname =
     CreatePart mw
       (MIMEHeader_Set [] ''Content-Disposition''
          (''form-data; name='' @ [dquote] @ escapeQuotes fieldname @ [dquote]))"

definition Writer_WriteField :: "Writer \<Rightarrow> string \<Rightarrow> string \<Rightarrow> outcome \<times> Writer" where
  "Writer_WriteField mw fieldname val =
     (case CreateFormField mw fieldname of
        (OK, mw') \<Rightarrow> Write_part mw' val
      | (r, mw') \<Rightarrow> (r, mw'))"

text \<open>
  \<^verbatim>\<open>Close\<close> closes the last part (returning its error, if any), forgets it, and writes the
  terminal marker. It keeps no record of having been called.
\<close>

definition Writer_Close :: "Writer \<Rightarrow> outcome \<times> Writer" where
  "Writer_Close mw =
     (case (case lastpart mw of
              None \<Rightarrow> (None, None)
            | Some p \<Rightarrow> (p_we p, Some (p\<lparr>p_closed := True\<rparr>))) of
        (Some e, lp) \<Rightarrow> (Err e, mw\<lparr>lastpart := lp\<rparr>)
      | (None, lp) \<Rightarrow>
          (case Write_sink (w_sink mw) (CRLF @ ''--'' @ boundary mw @ ''--'' @ CRLF) of
             (r, s) \<Rightarrow> (r, mw\<lparr>w_sink := s, lastpart := None\<rparr>)))"

text \<open>
  \<^verbatim>\<open>FormDataContentType\<close> puts the boundary in double quotes when it holds a space or
  one of the special characters of RFC 2045.
\<close>

definition needsQuoting :: "string \<Rightarrow> bool" where
  "needsQuoting b =
     list_ex (\<lambda>c. c \<in> set (''()<>@,;:'' @ [backslash, dquote] @ ''/[]?= '')) b"

definition Writer_FormDataContentType :: "Writer \<Rightarrow> string" where
  "Writer_FormDataContentType mw =
     ''multipart/form-data; boundary='' @
       (if needsQuoting (boundary mw) then [dquote] @ boundary mw @ [dquote] else boundary mw)"

section \<open>The form builder\<close>

record DefaultFormBuilder =
  writer :: Writer

definition NewFormBuilder :: "sink \<Rightarrow> string \<Rightarrow> DefaultFormBuilder" where
  "NewFormBuilder body rnd = \<lparr>writer = NewWriter body rnd\<rparr>"

text \<open>
  \<^verbatim>\<open>mime.ParseMediaType\<close> is a collaborator of the builder and a parameter \<open>pmt\<close> of the
  model: it maps a string to the media type and the error it returns. The builder looks only
  at whether the error is nil.

  \<open>fileHeader\<close> is the header that \<^verbatim>\<open>CreateFormFileReaderWithContentType\<close> builds before it
  creates the part.
\<close>

type_synonym ParseMediaType = "string \<Rightarrow> string \<times> error option"

definition fileHeader :: "ParseMediaType \<Rightarrow> string \<Rightarrow> string \<Rightarrow> string \<Rightarrow> MIMEHeader" where
  "fileHeader pmt fieldname filename contentType =
     (let h = MIMEHeader_Set [] ''Content-Disposition''
                (''form-data; name='' @ [dquote] @ escapeQuotes fieldname @ [dquote]
                 @ ''; filename='' @ [dquote] @ escapeQuotes (Base filename) @ [dquote])
      in case pmt contentType of
           (mediaType, None) \<Rightarrow> MIMEHeader_Set h ''Content-Type'' mediaType
         | (mediaType, Some e) \<Rightarrow> h)"

definition CreateFormFileReaderWithContentType ::
  "ParseMediaType \<Rightarrow> DefaultFormBuilder \<Rightarrow> string \<Rightarrow> reader option \<Rightarrow> string \<Rightarrow> string
     \<Rightarrow> outcome \<times> DefaultFormBuilder" where
  "CreateFormFileReaderWithContentType pmt fb fieldname r filename contentType =
     (case CreatePart (writer fb) (fileHeader pmt fieldname filename contentType) of
        (OK, mw) \<Rightarrow> (case io_Copy mw r of (res, mw') \<Rightarrow> (res, fb\<lparr>writer := mw'\<rparr>))
      | (e, mw) \<Rightarrow> (e, fb\<lparr>writer := mw\<rparr>))"

definition CreateFormFileReader ::
  "ParseMediaType \<Rightarrow> DefaultFormBuilder \<Rightarrow> string \<Rightarrow> reader option \<Rightarrow> string
     \<Rightarrow> outcome \<times> DefaultFormBuilder" where
  "CreateFormFileReader pmt fb fieldname r filename =
     CreateFormFileReaderWithContentType pmt fb fieldname r filename []"

definition createFormFile ::
  "DefaultFormBuilder \<Rightarrow> string \<Rightarrow> reader option \<Rightarrow> string \<Rightarrow> outcome \<times> DefaultFormBuilder" where
  "createFormFile fb fieldname r filename =
     (if filename = [] then (Err (ErrorMsg ''filename cannot be empty''), fb)
      else (case Writer_CreateFormFile (writer fb) fieldname filename of
              (OK, mw) \<Rightarrow> (case io_Copy mw r of (res, mw') \<Rightarrow> (res, fb\<lparr>writer := mw'\<rparr>))
            | (e, mw) \<Rightarrow> (e, fb\<lparr>writer := mw\<rparr>)))"

definition CreateFormFile ::
  "DefaultFormBuilder \<Rightarrow> string \<Rightarrow> os_File option \<Rightarrow> outcome \<times> DefaultFormBuilder" where
  "CreateFormFile fb fieldname file =
     (case file of
        None \<Rightarrow> (Panicked, fb)
      | Some f \<Rightarrow> createFormFile fb fieldname (Some (content f)) (Name f))"

definition WriteField :: "DefaultFormBuilder \<Rightarrow> string \<Rightarrow> string \<Rightarrow> outcome \<times> DefaultFormBuilder" where
  "WriteField fb fieldname val =
     (case Writer_WriteField (writer fb) fieldname val of (res, mw) \<Rightarrow> (res, fb\<lparr>writer := mw\<rparr>))"

definition Close :: "DefaultFormBuilder \<Rightarrow> outcome \<times> DefaultFormBuilder" where
  "Close fb = (case Writer_Close (writer fb) of (res, mw) \<Rightarrow> (res, fb\<lparr>writer := mw\<rparr>))"

definition FormDataContentType :: "DefaultFormBuilder \<Rightarrow> string" where
  "FormDataContentType fb = Writer_FormDataContentType (writer fb)"

section \<open>Sequences of append calls\<close>

text \<open>
  One append call on the builder, as data: the reader-based file append with its content
  type, the file-handle append, and the plain field. \<open>appendAll\<close> makes the calls in
  order and stops at the first one that does not return nil, as every caller in the
  repository does.
\<close>

datatype field =
    FileField string "reader option" string string
  | PathField string "os_File option"
  | PlainField string string

fun appendField :: "ParseMediaType \<Rightarrow> DefaultFormBuilder \<Rightarrow> field \<Rightarrow> outcome \<times> DefaultFormBuilder" where
  "appendField pmt fb (FileField fieldname r filename contentType) =
     CreateFormFileReaderWithContentType pmt fb fieldname r filename contentType"
| "appendField pmt fb (PathField fieldname file) = CreateFormFile fb fieldname file"
| "appendField pmt fb (PlainField fieldname val) = WriteField fb fieldname val"

fun appendAll ::
  "ParseMediaType \<Rightarrow> DefaultFormBuilder \<Rightarrow> field list \<Rightarrow> outcome \<times> DefaultFormBuilder" where
  "appendAll pmt fb [] = (OK, fb)"
| "appendAll pmt fb (f # fs) =
     (case appendField pmt fb f of
        (OK, fb') \<Rightarrow> appendAll pmt fb' fs
      | (e, fb') \<Rightarrow> (e, fb'))"

text \<open>
  The wire format of the specification: a part is the delimiter line (after a line break,
  unless it opens the body), the header block, an empty line and the raw bytes; the body
  ends with the terminal marker.
\<close>

definition partBytes :: "string \<Rightarrow> bool \<Rightarrow> MIMEHeader \<Rightarrow> string \<Rightarrow> string" where
  "partBytes b first h bytes =
     (if first then [] else CRLF) @ ''--'' @ b @ CRLF @ header_lines h @ CRLF @ bytes"

definition terminalMarker :: "string \<Rightarrow> string" where
  "terminalMarker b = CRLF @ ''--'' @ b @ ''--'' @ CRLF"

fun readerBytes :: "reader option \<Rightarrow> string" where
  "readerBytes None = []"
| "readerBytes (Some r) = concat (chunks r)"

fun fieldHeader :: "ParseMediaType \<Rightarrow> field \<Rightarrow> MIMEHeader" where
  "fieldHeader pmt (FileField fieldname r filename contentType) =
     fileHeader pmt fieldname filename contentType"
| "fieldHeader pmt (PathField fieldname file) =
     [(''Content-Disposition'',
        [''form-data; name='' @ [dquote] @ escapeQuotes fieldname @ [dquote]
         @ ''; filename='' @ [dquote]
         @ escapeQuotes (case file of None \<Rightarrow> [] | Some f \<Rightarrow> Name f) @ [dquote]]),
      (''Content-Type'', [''application/octet-stream''])]"
| "fieldHeader pmt (PlainField fieldname val) =
     [(''Content-Disposition'',
        [''form-data; name='' @ [dquote] @ escapeQuotes fieldname @ [dquote]])]"

fun fieldBytes :: "field \<Rightarrow> string" where
  "fieldBytes (FileField fieldname r filename contentType) = readerBytes r"
| "fieldBytes (PathField fieldname file) =
     (case file of None \<Rightarrow> [] | Some f \<Rightarrow> concat (chunks (content f)))"
| "fieldBytes (PlainField fieldname val) = val"

fun encodeFields :: "ParseMediaType \<Rightarrow> string \<Rightarrow> bool \<Rightarrow> field list \<Rightarrow> string" where
  "encodeFields pmt b first [] = []"
| "encodeFields pmt b first (f # fs) =
     partBytes b first (fieldHeader pmt f) (fieldBytes f) @ encodeFields pmt b False fs"

text \<open>
  A call that cannot fail by itself: its byte source is there and ends with \<^verbatim>\<open>io.EOF\<close>,
  and a file handle has a name.
\<close>

fun goodReader :: "reader option \<Rightarrow> bool" where
  "goodReader None = False"
| "goodReader (Some r) = (\<not> fails r)"

fun goodField :: "field \<Rightarrow> bool" where
  "goodField (FileField fieldname r filename contentType) = goodReader r"
| "goodField (PathField fieldname file) =
     (case file of None \<Rightarrow> False | Some f \<Rightarrow> Name f \<noteq> [] \<and> \<not> fails (content f))"
| "goodField (PlainField fieldname val) = True"

text \<open>A builder whose sink never fails and whose last part, if any, is open and met no error.\<close>

definition healthy :: "DefaultFormBuilder \<Rightarrow> bool" where
  "healthy fb =
     (limit (w_sink (writer fb)) = None \<and>
      (case lastpart (writer fb) of None \<Rightarrow> True | Some p \<Rightarrow> \<not> p_closed p \<and> p_we p = None))"

definition body :: "DefaultFormBuilder \<Rightarrow> string" where
  "body fb = written (w_sink (writer fb))"

text \<open>
  The builder after \<open>bytes\<close> went into its sink and \<open>lp\<close> became its writer's last
  part; \<open>openPart\<close> is the part that \<^verbatim>\<open>CreatePart\<close> makes.
\<close>

definition wrote :: "DefaultFormBuilder \<Rightarrow> string \<Rightarrow> part option \<Rightarrow> DefaultFormBuilder" where
  "wrote fb bytes lp =
     fb\<lparr>writer := (writer fb)
           \<lparr>w_sink := (w_sink (writer fb))\<lparr>written := written (w_sink (writer fb)) @ bytes\<rparr>,
            lastpart := lp\<rparr>\<rparr>"

definition openPart :: part where
  "openPart = \<lparr>p_closed = False, p_we = None\<rparr>"

text \<open>
  A stand-in for \<^verbatim>\<open>mime.ParseMediaType\<close> in the examples. It agrees with the parser on the
  two strings the endpoint methods pass: \<^verbatim>\<open>image/png\<close> is a media type, and the empty
  string is none.
\<close>

definition exampleParser :: ParseMediaType where
  "exampleParser s =
     (if s = ''image/png'' then (''image/png'', None)
      else ([], Some (ErrorMsg ''mime: no media type'')))"

section \<open>The image endpoints\<close>

record ImageResponseDataInner =
  URL :: string
  B64JSON :: string
  RevisedPrompt :: string

record ImageResponseInputTokensDetails =
  TextTokens :: int
  ImageTokens :: int

record ImageResponseUsage =
  TotalTokens :: int
  InputTokens :: int
  OutputTokens :: int
  InputTokensDetails :: ImageResponseInputTokensDetails

record ImageResponse =
  Created :: int
  Data :: "ImageResponseDataInner list"
  Usage :: ImageResponseUsage
  httpHeader :: "(string \<times> string list) list"

definition zero_ImageResponse :: ImageResponse where
  "zero_ImageResponse =
     \<lparr>Created = 0, Data = [],
      Usage = \<lparr>TotalTokens = 0, InputTokens = 0, OutputTokens = 0,
               InputTokensDetails = \<lparr>TextTokens = 0, ImageTokens = 0\<rparr>\<rparr>,
      httpHeader = []\<rparr>"

record ImageEditRequest =
  Image :: "reader option"
  Mask :: "reader option"
  Prompt :: string
  Model :: string
  N :: int
  Size :: string
  ResponseFormat :: string
  Quality :: string
  User :: string

text \<open>
  The fields of \<^verbatim>\<open>MultiImageEditRequest\<close> carry the prefix \<open>M\<close>, since a record of
  Isabelle cannot share field names with another one.
\<close>

record MultiImageEditRequest =
  Images :: "reader option list"
  MPrompt :: string
  MModel :: string
  MN :: int
  MSize :: string
  MResponseFormat :: string
  MQuality :: string
  MUser :: string

text \<open>
  The client's helpers are not in the source at hand and are parameters of the model:
  \<^verbatim>\<open>fullURL\<close> (endpoint and model to URL), \<^verbatim>\<open>newRequest\<close> (method, URL, body, content
  type to a request or an error) and \<^verbatim>\<open>sendRequest\<close> (which sends the request and fills
  the response).

  Modelled from the spec: the client's \<^verbatim>\<open>createFormBuilder\<close>, which is not in the source at
  hand. The specification has one multipart form builder, bound to an output sink at its
  creation; \<^verbatim>\<open>createFormBuilder\<close> is \<^verbatim>\<open>NewFormBuilder\<close> on the body buffer.
\<close>

record 'req Client =
  fullURL :: "string \<Rightarrow> string \<Rightarrow> string"
  newRequest :: "string \<Rightarrow> string \<Rightarrow> string \<Rightarrow> string \<Rightarrow> error + 'req"
  sendRequest :: "'req \<Rightarrow> ImageResponse \<Rightarrow> error option \<times> ImageResponse"

text \<open>
  What a call of an endpoint method leaves behind: the values it returns, and, to speak
  about its effects, the form builder it made (if it made one) and the requests it sent.
\<close>

record 'req call =
  response :: ImageResponse
  err :: outcome
  form :: "DefaultFormBuilder option"
  sent :: "'req list"

text \<open>\<^verbatim>\<open>if err != nil { return }\<close> between two steps.\<close>

definition andThen ::
  "outcome \<times> DefaultFormBuilder \<Rightarrow> (DefaultFormBuilder \<Rightarrow> outcome \<times> DefaultFormBuilder)
     \<Rightarrow> outcome \<times> DefaultFormBuilder" where
  "andThen r f = (case r of (OK, fb) \<Rightarrow> f fb | (e, fb) \<Rightarrow> (e, fb))"

text \<open>The tail both methods share: the request is made from the body and sent.\<close>

definition postForm ::
  "'req Client \<Rightarrow> string \<Rightarrow> outcome \<times> DefaultFormBuilder \<Rightarrow> 'req call" where
  "postForm c model r =
     (case r of
        (OK, fb) \<Rightarrow>
          (case newRequest c ''POST'' (fullURL c ''/images/edits'' model) (body fb)
                  (FormDataContentType fb) of
             Inl e \<Rightarrow> \<lparr>response = zero_ImageResponse, err = Err e, form = Some fb, sent = []\<rparr>
           | Inr req \<Rightarrow>
               (case sendRequest c req zero_ImageResponse of
                  (None, resp) \<Rightarrow> \<lparr>response = resp, err = OK, form = Some fb, sent = [req]\<rparr>
                | (Some e, resp) \<Rightarrow>
                    \<lparr>response = resp, err = Err e, form = Some fb, sent = [req]\<rparr>))
      | (e, fb) \<Rightarrow> \<lparr>response = zero_ImageResponse, err = e, form = Some fb, sent = []\<rparr>)"

text \<open>The form of \<^verbatim>\<open>CreateEditImage\<close>, from the builder's creation to \<^verbatim>\<open>Close\<close>.\<close>

definition editForm ::
  "ParseMediaType \<Rightarrow> string \<Rightarrow> ImageEditRequest \<Rightarrow> outcome \<times> DefaultFormBuilder" where
  "editForm pmt rnd request =
     andThen (andThen (andThen (andThen (andThen (andThen
       (CreateFormFileReaderWithContentType pmt
          (NewFormBuilder \<lparr>written = [], limit = None\<rparr> rnd)
          ''image'' (Image request) [] ''image/png'')
       (\<lambda>fb. case Mask request of
                None \<Rightarrow> (OK, fb)
              | Some m \<Rightarrow> CreateFormFileReader pmt fb ''mask'' (Some m) []))
       (\<lambda>fb. WriteField fb ''prompt'' (Prompt request)))
       (\<lambda>fb. WriteField fb ''n'' (Itoa (N request))))
       (\<lambda>fb. WriteField fb ''size'' (Size request)))
       (\<lambda>fb. if ResponseFormat request \<noteq> []
              then WriteField fb ''response_format'' (ResponseFormat request)
              else (OK, fb)))
       Close"

definition CreateEditImage ::
  "'req Client \<Rightarrow> ParseMediaType \<Rightarrow> string \<Rightarrow> ImageEditRequest \<Rightarrow> 'req call" where
  "CreateEditImage c pmt rnd request = postForm c (Model request) (editForm pmt rnd request)"

text \<open>The loop over the images of \<^verbatim>\<open>CreateMultiEditImage\<close>.\<close>

fun appendImages ::
  "ParseMediaType \<Rightarrow> DefaultFormBuilder \<Rightarrow> reader option list
     \<Rightarrow> outcome \<times> DefaultFormBuilder" where
  "appendImages pmt fb [] = (OK, fb)"
| "appendImages pmt fb (img # imgs) =
     (case CreateFormFileReaderWithContentType pmt fb ''image[]'' img [] ''image/png'' of
        (OK, fb') \<Rightarrow> appendImages pmt fb' imgs
      | (e, fb') \<Rightarrow> (e, fb'))"

definition multiEditForm ::
  "ParseMediaType \<Rightarrow> string \<Rightarrow> MultiImageEditRequest \<Rightarrow> outcome \<times> DefaultFormBuilder" where
  "multiEditForm pmt rnd request =
     andThen (andThen (andThen (andThen (andThen
       (appendImages pmt (NewFormBuilder \<lparr>written = [], limit = None\<rparr> rnd) (Images request))
       (\<lambda>fb. WriteField fb ''prompt'' (MPrompt request)))
       (\<lambda>fb. WriteField fb ''n'' (Itoa (MN request))))
       (\<lambda>fb. WriteField fb ''size'' (MSize request)))
       (\<lambda>fb. if MResponseFormat request \<noteq> []
              then WriteField fb ''response_format'' (MResponseFormat request)
              else (OK, fb)))
       Close"

definition CreateMultiEditImage ::
  "'req Client \<Rightarrow> ParseMediaType \<Rightarrow> string \<Rightarrow> MultiImageEditRequest \<Rightarrow> 'req call" where
  "CreateMultiEditImage c pmt rnd request =
     (if length (Images request) < 1
      then \<lparr>response = zero_ImageResponse, err = OK, form = None, sent = []\<rparr>
      else if length (Images request) = 1
      then CreateEditImage c pmt rnd
             \<lparr>Image = Images request ! 0, Mask = None, Prompt = MPrompt request,
              Model = MModel request, N = MN request, Size = MSize request,
              ResponseFormat = MResponseFormat request, Quality = MQuality request,
              User = MUser request\<rparr>
      else postForm c (MModel request) (multiEditForm pmt rnd request))"



section \<open>Arbitrary use of a builder\<close>

text \<open>
  Any caller of the builder: a list of calls, each an append or a \<^verbatim>\<open>Close\<close>, made one after
  the other whatever the earlier ones returned.
\<close>

datatype builder_call = Append field | CloseCall

fun call1 :: "ParseMediaType \<Rightarrow> DefaultFormBuilder \<Rightarrow> builder_call \<Rightarrow> outcome \<times> DefaultFormBuilder" where
  "call1 pmt fb (Append f) = appendField pmt fb f"
| "call1 pmt fb CloseCall = Close fb"

fun run :: "ParseMediaType \<Rightarrow> DefaultFormBuilder \<Rightarrow> builder_call list \<Rightarrow> DefaultFormBuilder" where
  "run pmt fb [] = fb"
| "run pmt fb (k # ks) = run pmt (snd (call1 pmt fb k)) ks"

section \<open>Escaping of names\<close>

lemma escapeQuotes_Cons:
  "escapeQuotes (c # s) =
     (if c = backslash then [backslash, backslash]
      else if c = dquote then [backslash, dquote] else [c]) @ escapeQuotes s"
  by (simp add: escapeQuotes_def quoteEscaper_def)

lemma escapeQuotes_Nil: "escapeQuotes [] = []"
  by (simp add: escapeQuotes_def)

lemma escapeQuotes_append: "escapeQuotes (s @ t) = escapeQuotes s @ escapeQuotes t"
  by (induction s) (simp_all add: escapeQuotes_Nil escapeQuotes_Cons)

lemma backslash_neq_dquote: "backslash \<noteq> dquote"
  by (simp add: backslash_def dquote_def)

lemma unescape_plain:
  "c \<noteq> backslash \<Longrightarrow> spec_unescapeQuotes (c # t) = c # spec_unescapeQuotes t"
  by (cases t) simp_all

lemma unescape_escapeQuotes: "spec_unescapeQuotes (escapeQuotes s) = s"
proof (induction s)
  case Nil
  show ?case by (simp add: escapeQuotes_Nil)
next
  case (Cons c s)
  show ?case
  proof (cases "c = backslash \<or> c = dquote")
    case True
    then show ?thesis using Cons by (auto simp: escapeQuotes_Cons)
  next
    case False
    then show ?thesis using Cons by (simp add: escapeQuotes_Cons unescape_plain)
  qed
qed

lemma readQuoted_plain:
  "c \<noteq> backslash \<Longrightarrow> c \<noteq> dquote \<Longrightarrow> t \<noteq> [] \<Longrightarrow>
   spec_readQuoted (c # t) = map_option (\<lambda>(v, rest). (c # v, rest)) (spec_readQuoted t)"
  by (cases t) simp_all

lemma readQuoted_escapeQuotes:
  "spec_readQuoted (escapeQuotes s @ dquote # rest) = Some (s, rest)"
proof (induction s)
  case Nil
  show ?case by (cases rest) (simp_all add: escapeQuotes_Nil)
next
  case (Cons c s)
  show ?case
  proof (cases "c = backslash \<or> c = dquote")
    case True
    then show ?thesis using Cons by (auto simp: escapeQuotes_Cons backslash_neq_dquote)
  next
    case False
    then show ?thesis using Cons by (simp add: escapeQuotes_Cons readQuoted_plain)
  qed
qed

text \<open>
  C4. \<^verbatim>\<open>escapeQuotes\<close> escapes exactly the backslash and the double quote, each by a
  backslash put before it, and copies every other byte; unescaping the escaped string gives
  the original string back, and a reader of the quoted string, started after the opening
  quote, stops at the closing quote with the original string.
\<close>

theorem escapeQuotes_roundtrip:
  "escapeQuotes [] = [] \<and>
   escapeQuotes (c # s) =
     (if c = backslash then [backslash, backslash]
      else if c = dquote then [backslash, dquote]
      else [c]) @ escapeQuotes s \<and>
   spec_unescapeQuotes (escapeQuotes s) = s \<and>
   spec_readQuoted (escapeQuotes s @ dquote # rest) = Some (s, rest)"
  by (simp add: escapeQuotes_Nil escapeQuotes_Cons unescape_escapeQuotes readQuoted_escapeQuotes)

theorem escapeQuotes_roundtrip_witness:
  "escapeQuotes [CHR ''a'', dquote, backslash] = [CHR ''a'', backslash, dquote, backslash, backslash] \<and>
   spec_unescapeQuotes (escapeQuotes [dquote, backslash]) = [dquote, backslash] \<and>
   spec_readQuoted (escapeQuotes [dquote, backslash] @ dquote # ''; x'') = Some ([dquote, backslash], ''; x'')"
  using escapeQuotes_roundtrip [of "CHR ''a''" "[dquote, backslash]" "''; x''"]
    escapeQuotes_roundtrip [of dquote "[backslash]" "[]"]
    escapeQuotes_roundtrip [of backslash "[]" "[]"]
  by (simp add: backslash_def dquote_def)

section \<open>The builder on a sink that never fails\<close>

subsection \<open>Header blocks\<close>

lemma header_lines_one: "header_lines [(k, [v])] = k @ '': '' @ v @ CRLF"
  by (simp add: header_lines_def Get_all_def)

lemma header_lines_two:
  "header_lines [(''Content-Disposition'', [v]), (''Content-Type'', [m])] =
     ''Content-Disposition: '' @ v @ CRLF @ ''Content-Type: '' @ m @ CRLF"
  by (simp add: header_lines_def Get_all_def)

lemma fileHeader_eq:
  "fileHeader pmt fieldname filename contentType =
     (''Content-Disposition'',
        [''form-data; name='' @ [dquote] @ escapeQuotes fieldname @ [dquote]
         @ ''; filename='' @ [dquote] @ escapeQuotes (Base filename) @ [dquote]])
     # (case pmt contentType of
          (mediaType, None) \<Rightarrow> [(''Content-Type'', [mediaType])]
        | (mediaType, Some e) \<Rightarrow> [])"
  by (simp add: fileHeader_def split: prod.splits option.splits)

subsection \<open>Steps of a healthy builder\<close>

lemma Write_sink_unbounded:
  "limit s = None \<Longrightarrow> Write_sink s d = (OK, s\<lparr>written := written s @ d\<rparr>)"
  by (simp add: Write_sink_def)

lemma CreatePart_healthy:
  assumes "healthy fb"
  shows "CreatePart (writer fb) h =
           (OK, writer (wrote fb (partBytes (boundary (writer fb)) (lastpart (writer fb) = None) h [])
                  (Some openPart)))"
  using assms
  by (cases "lastpart (writer fb)")
     (simp_all add: healthy_def CreatePart_def Write_sink_unbounded wrote_def partBytes_def openPart_def)

lemma copy_chunks_open:
  "limit (w_sink mw) = None \<Longrightarrow> lastpart mw = Some p \<Longrightarrow> \<not> p_closed p \<Longrightarrow>
   copy_chunks mw cs =
     (OK, mw\<lparr>w_sink := (w_sink mw)\<lparr>written := written (w_sink mw) @ concat cs\<rparr>\<rparr>)"
proof (induction cs arbitrary: mw)
  case Nil
  then show ?case by simp
next
  case (Cons c cs)
  show ?case
  proof (cases "c = []")
    case True
    then show ?thesis using Cons by simp
  next
    case False
    let ?mw = "mw\<lparr>w_sink := (w_sink mw)\<lparr>written := written (w_sink mw) @ c\<rparr>\<rparr>"
    have w: "Write_part mw c = (OK, ?mw)"
      using Cons.prems by (simp add: Write_part_def Write_sink_unbounded)
    have "copy_chunks ?mw cs =
            (OK, ?mw\<lparr>w_sink := (w_sink ?mw)\<lparr>written := written (w_sink ?mw) @ concat cs\<rparr>\<rparr>)"
      using Cons.prems by (intro Cons.IH) simp_all
    then show ?thesis using False w by simp
  qed
qed

lemma io_Copy_open:
  "limit (w_sink mw) = None \<Longrightarrow> lastpart mw = Some p \<Longrightarrow> \<not> p_closed p \<Longrightarrow> goodReader r \<Longrightarrow>
   io_Copy mw r =
     (OK, mw\<lparr>w_sink := (w_sink mw)\<lparr>written := written (w_sink mw) @ readerBytes r\<rparr>\<rparr>)"
  by (cases r) (simp_all add: io_Copy_def copy_chunks_open)

lemma Write_part_open:
  "limit (w_sink mw) = None \<Longrightarrow> lastpart mw = Some p \<Longrightarrow> \<not> p_closed p \<Longrightarrow>
   Write_part mw d = (OK, mw\<lparr>w_sink := (w_sink mw)\<lparr>written := written (w_sink mw) @ d\<rparr>\<rparr>)"
  by (simp add: Write_part_def Write_sink_unbounded)

lemma CreateFormFileReaderWithContentType_healthy:
  assumes "healthy fb" "goodReader r"
  shows "CreateFormFileReaderWithContentType pmt fb fieldname r filename contentType =
           (OK, wrote fb (partBytes (boundary (writer fb)) (lastpart (writer fb) = None)
                            (fileHeader pmt fieldname filename contentType) (readerBytes r))
                  (Some openPart))"
  using assms
  by (simp add: CreateFormFileReaderWithContentType_def CreatePart_healthy
      io_Copy_open [where p = openPart] wrote_def openPart_def healthy_def partBytes_def)

lemma WriteField_healthy:
  assumes "healthy fb"
  shows "WriteField fb fieldname val =
           (OK, wrote fb (partBytes (boundary (writer fb)) (lastpart (writer fb) = None)
                            [(''Content-Disposition'',
                               [''form-data; name='' @ [dquote] @ escapeQuotes fieldname @ [dquote]])]
                            val)
                  (Some openPart))"
  using assms
  by (simp add: WriteField_def Writer_WriteField_def CreateFormField_def CreatePart_healthy
      Write_part_open [where p = openPart] wrote_def openPart_def healthy_def partBytes_def)

lemma createFormFile_healthy:
  assumes "healthy fb" "goodReader r" "filename \<noteq> []"
  shows "createFormFile fb fieldname r filename =
           (OK, wrote fb (partBytes (boundary (writer fb)) (lastpart (writer fb) = None)
                            [(''Content-Disposition'',
                               [''form-data; name='' @ [dquote] @ escapeQuotes fieldname @ [dquote]
                                @ ''; filename='' @ [dquote] @ escapeQuotes filename @ [dquote]]),
                             (''Content-Type'', [''application/octet-stream''])]
                            (readerBytes r))
                  (Some openPart))"
  using assms
  by (simp add: createFormFile_def Writer_CreateFormFile_def CreatePart_healthy
      io_Copy_open [where p = openPart] wrote_def openPart_def healthy_def partBytes_def)

lemma Close_healthy:
  assumes "healthy fb"
  shows "Close fb = (OK, wrote fb (terminalMarker (boundary (writer fb))) None)"
  using assms
  by (cases "lastpart (writer fb)")
     (simp_all add: Close_def Writer_Close_def healthy_def Write_sink_unbounded wrote_def
       terminalMarker_def)

lemma healthy_wrote: "healthy fb \<Longrightarrow> healthy (wrote fb bytes (Some openPart))"
  by (simp add: healthy_def wrote_def openPart_def)

lemma healthy_wrote_None: "healthy fb \<Longrightarrow> healthy (wrote fb bytes None)"
  by (simp add: healthy_def wrote_def)

lemma wrote_simps:
  "boundary (writer (wrote fb bytes lp)) = boundary (writer fb)"
  "lastpart (writer (wrote fb bytes lp)) = lp"
  "body (wrote fb bytes lp) = body fb @ bytes"
  "limit (w_sink (writer (wrote fb bytes lp))) = limit (w_sink (writer fb))"
  by (simp_all add: wrote_def body_def)

lemma wrote_wrote: "wrote (wrote fb a lp) b lp' = wrote fb (a @ b) lp'"
  by (simp add: wrote_def)

subsection \<open>Sequences of calls\<close>

lemma wrote_Nil: "wrote fb [] (lastpart (writer fb)) = fb"
  by (simp add: wrote_def)

lemma appendField_healthy:
  assumes "healthy fb" "goodField f"
  shows "appendField pmt fb f =
           (OK, wrote fb (partBytes (boundary (writer fb)) (lastpart (writer fb) = None)
                            (fieldHeader pmt f) (fieldBytes f))
                  (Some openPart))"
proof (cases f)
  case (FileField fieldname r filename contentType)
  then show ?thesis
    using assms by (simp add: CreateFormFileReaderWithContentType_healthy)
next
  case (PathField fieldname fh)
  then obtain fl where fl: "fh = Some fl" "Name fl \<noteq> []" "\<not> fails (content fl)"
    using assms(2) by (cases fh) auto
  have "goodReader (Some (content fl))" using fl by simp
  then show ?thesis
    using assms(1) fl PathField
    by (simp add: CreateFormFile_def createFormFile_healthy)
next
  case (PlainField fieldname val)
  then show ?thesis
    using assms by (simp add: WriteField_healthy)
qed

lemma appendAll_healthy:
  assumes "healthy fb" "list_all goodField fs"
  shows "appendAll pmt fb fs =
           (OK, wrote fb (encodeFields pmt (boundary (writer fb)) (lastpart (writer fb) = None) fs)
                  (if fs = [] then lastpart (writer fb) else Some openPart))"
  using assms
proof (induction fs arbitrary: fb)
  case Nil
  then show ?case by (simp add: wrote_Nil)
next
  case (Cons f fs)
  let ?fb = "wrote fb (partBytes (boundary (writer fb)) (lastpart (writer fb) = None)
                         (fieldHeader pmt f) (fieldBytes f)) (Some openPart)"
  have step: "appendField pmt fb f = (OK, ?fb)"
    using Cons.prems by (simp add: appendField_healthy)
  have h: "healthy ?fb" using Cons.prems(1) by (rule healthy_wrote)
  have "appendAll pmt ?fb fs =
          (OK, wrote ?fb (encodeFields pmt (boundary (writer ?fb)) (lastpart (writer ?fb) = None) fs)
                 (if fs = [] then lastpart (writer ?fb) else Some openPart))"
    using h Cons.prems(2) by (intro Cons.IH) simp_all
  then show ?case
    using step by (simp add: wrote_simps wrote_wrote)
qed

lemma appendImages_appendAll:
  "appendImages pmt fb imgs =
     appendAll pmt fb (map (\<lambda>img. FileField ''image[]'' img [] ''image/png'') imgs)"
  by (induction imgs arbitrary: fb) (simp_all split: prod.splits outcome.splits)

lemma healthy_NewFormBuilder: "healthy (NewFormBuilder \<lparr>written = [], limit = None\<rparr> rnd)"
  by (simp add: healthy_def NewFormBuilder_def NewWriter_def)

section \<open>Order of the parts\<close>

text \<open>
  C5. On a builder whose sink accepts every write, a sequence of append calls whose byte
  sources can be read (several file fields under one field name included) all return nil,
  and the bytes they add to the sink are one encoded part for each call, in the order of
  the calls: each part is the delimiter line, the header block of that call, an empty line
  and the bytes of that call. The loop of \<^verbatim>\<open>CreateMultiEditImage\<close> over the images is
  such a sequence, with one \<^verbatim>\<open>image[]\<close> part for each image.
\<close>

theorem appendAll_in_call_order:
  assumes "healthy fb" and "list_all goodField fs" and "list_all goodReader imgs"
  shows "appendAll pmt fb fs =
           (OK, wrote fb (encodeFields pmt (boundary (writer fb)) (lastpart (writer fb) = None) fs)
                  (if fs = [] then lastpart (writer fb) else Some openPart)) \<and>
         appendImages pmt fb imgs =
           (OK, wrote fb
                  (encodeFields pmt (boundary (writer fb)) (lastpart (writer fb) = None)
                     (map (\<lambda>img. FileField ''image[]'' img [] ''image/png'') imgs))
                  (if imgs = [] then lastpart (writer fb) else Some openPart))"
proof -
  have "list_all goodField (map (\<lambda>img. FileField ''image[]'' img [] ''image/png'') imgs)"
    using assms(3) by (simp add: list_all_iff)
  then show ?thesis
    using assms(1,2) by (simp add: appendImages_appendAll appendAll_healthy)
qed

theorem appendAll_in_call_order_witness:
  "appendAll (\<lambda>s. if s = ''image/png'' then (''image/png'', None)
                    else ([], Some (ErrorMsg ''mime: no media type'')))
     (NewFormBuilder \<lparr>written = [], limit = None\<rparr> [CHR 0x0A, CHR 0xFF])
     [FileField ''image[]'' (Some \<lparr>chunks = [''P1''], fails = False\<rparr>) [] ''image/png'',
      FileField ''image[]'' (Some \<lparr>chunks = [''P'', ''2''], fails = False\<rparr>) [] ''image/png'',
      PlainField ''n'' ''2'']
   = (OK, \<lparr>writer = \<lparr>w_sink = \<lparr>written =
        ''--0aff'' @ CRLF @
        ''Content-Disposition: form-data; name='' @ [dquote] @ ''image[]'' @ [dquote]
          @ ''; filename='' @ [dquote] @ ''.'' @ [dquote] @ CRLF @
        ''Content-Type: image/png'' @ CRLF @ CRLF @ ''P1'' @ CRLF @
        ''--0aff'' @ CRLF @
        ''Content-Disposition: form-data; name='' @ [dquote] @ ''image[]'' @ [dquote]
          @ ''; filename='' @ [dquote] @ ''.'' @ [dquote] @ CRLF @
        ''Content-Type: image/png'' @ CRLF @ CRLF @ ''P2'' @ CRLF @
        ''--0aff'' @ CRLF @
        ''Content-Disposition: form-data; name='' @ [dquote] @ ''n'' @ [dquote] @ CRLF @ CRLF @
        ''2'', limit = None\<rparr>, boundary = ''0aff'',
        lastpart = Some \<lparr>p_closed = False, p_we = None\<rparr>\<rparr>\<rparr>)"
proof -
  let ?pmt = "\<lambda>s. if s = ''image/png'' then (''image/png'', None)
                    else ([], Some (ErrorMsg ''mime: no media type''))"
  let ?fs = "[FileField ''image[]'' (Some \<lparr>chunks = [''P1''], fails = False\<rparr>) [] ''image/png'',
      FileField ''image[]'' (Some \<lparr>chunks = [''P'', ''2''], fails = False\<rparr>) [] ''image/png'',
      PlainField ''n'' ''2'']"
  let ?fb = "NewFormBuilder \<lparr>written = [], limit = None\<rparr> [CHR 0x0A, CHR 0xFF]"
  have g: "list_all goodField ?fs" by simp
  have i: "list_all goodReader []" by simp
  have e: "appendAll ?pmt ?fb ?fs =
             (OK, wrote ?fb (encodeFields ?pmt (boundary (writer ?fb)) (lastpart (writer ?fb) = None) ?fs)
                    (if ?fs = [] then lastpart (writer ?fb) else Some openPart))"
    using appendAll_in_call_order [OF healthy_NewFormBuilder g i] by (rule conjunct1)
  show ?thesis
    unfolding e
    by (simp add: wrote_def NewFormBuilder_def NewWriter_def randomBoundary_def hexByte_def
        partBytes_def fileHeader_eq header_lines_one header_lines_two Base_def openPart_def
        escapeQuotes_Nil escapeQuotes_Cons backslash_def dquote_def)
qed

section \<open>File names\<close>

text \<open>The definitions that an evaluation at a concrete input unfolds.\<close>

lemmas eval_defs =
  wrote_def NewFormBuilder_def NewWriter_def randomBoundary_def hexByte_def
  partBytes_def terminalMarker_def fileHeader_eq header_lines_one header_lines_two Base_def
  openPart_def escapeQuotes_Nil escapeQuotes_Cons backslash_def dquote_def exampleParser_def
  body_def

text \<open>
  C1. What the code does with the file name \<^verbatim>\<open>""\<close> in the reader-based append:
  \<^verbatim>\<open>filepath.Base\<close> turns the empty name into \<^verbatim>\<open>"."\<close>, so the header that is written
  carries the attribute \<^verbatim>\<open>filename="."\<close>, for every field name and byte source; it does
  not carry the empty quoted file name that the claim and the comment above the function
  speak of.
\<close>

theorem empty_filename_written_as_dot:
  "Base [] = ''.'' \<and>
   fileHeader pmt fieldname [] contentType =
     (''Content-Disposition'',
        [''form-data; name='' @ [dquote] @ escapeQuotes fieldname @ [dquote]
         @ ''; filename='' @ [dquote] @ ''.'' @ [dquote]])
     # (case pmt contentType of
          (mediaType, None) \<Rightarrow> [(''Content-Type'', [mediaType])]
        | (mediaType, Some e) \<Rightarrow> []) \<and>
   CreateFormFileReader pmt (NewFormBuilder \<lparr>written = [], limit = None\<rparr> rnd) fieldname
       (Some \<lparr>chunks = cs, fails = False\<rparr>) [] =
     (OK, wrote (NewFormBuilder \<lparr>written = [], limit = None\<rparr> rnd)
            (''--'' @ randomBoundary rnd @ CRLF
             @ header_lines (fileHeader pmt fieldname [] []) @ CRLF @ concat cs)
            (Some openPart))"
proof -
  have b: "Base [] = ''.''" by (simp add: Base_def)
  have h: "fileHeader pmt fieldname [] contentType =
     (''Content-Disposition'',
        [''form-data; name='' @ [dquote] @ escapeQuotes fieldname @ [dquote]
         @ ''; filename='' @ [dquote] @ ''.'' @ [dquote]])
     # (case pmt contentType of
          (mediaType, None) \<Rightarrow> [(''Content-Type'', [mediaType])]
        | (mediaType, Some e) \<Rightarrow> [])"
    by (simp add: fileHeader_eq b escapeQuotes_Cons escapeQuotes_Nil backslash_def dquote_def)
  have c: "CreateFormFileReader pmt (NewFormBuilder \<lparr>written = [], limit = None\<rparr> rnd) fieldname
       (Some \<lparr>chunks = cs, fails = False\<rparr>) [] =
     (OK, wrote (NewFormBuilder \<lparr>written = [], limit = None\<rparr> rnd)
            (''--'' @ randomBoundary rnd @ CRLF
             @ header_lines (fileHeader pmt fieldname [] []) @ CRLF @ concat cs)
            (Some openPart))"
    unfolding CreateFormFileReader_def
    by (simp add: CreateFormFileReaderWithContentType_healthy healthy_NewFormBuilder)
       (simp add: NewFormBuilder_def NewWriter_def partBytes_def)
  show ?thesis using b h c by blast
qed

theorem empty_filename_written_as_dot_witness:
  "CreateFormFileReader exampleParser
       (NewFormBuilder \<lparr>written = [], limit = None\<rparr> [CHR 0x0A, CHR 0xFF]) ''image''
       (Some \<lparr>chunks = [''PNG''], fails = False\<rparr>) [] =
     (OK, \<lparr>writer = \<lparr>w_sink = \<lparr>written =
        ''--0aff'' @ CRLF @
        ''Content-Disposition: form-data; name='' @ [dquote] @ ''image'' @ [dquote]
          @ ''; filename='' @ [dquote] @ ''.'' @ [dquote] @ CRLF @ CRLF @ ''PNG'',
        limit = None\<rparr>, boundary = ''0aff'',
        lastpart = Some \<lparr>p_closed = False, p_we = None\<rparr>\<rparr>\<rparr>)"
proof -
  have e: "CreateFormFileReader exampleParser
       (NewFormBuilder \<lparr>written = [], limit = None\<rparr> [CHR 0x0A, CHR 0xFF]) ''image''
       (Some \<lparr>chunks = [''PNG''], fails = False\<rparr>) [] =
     (OK, wrote (NewFormBuilder \<lparr>written = [], limit = None\<rparr> [CHR 0x0A, CHR 0xFF])
            (''--'' @ randomBoundary [CHR 0x0A, CHR 0xFF] @ CRLF
             @ header_lines (fileHeader exampleParser ''image'' [] []) @ CRLF @ concat [''PNG''])
            (Some openPart))"
    using empty_filename_written_as_dot [of exampleParser "''image''" "[]" "[CHR 0x0A, CHR 0xFF]" "[''PNG'']"]
    by blast
  show ?thesis unfolding e by (simp add: eval_defs)
qed

text \<open>
  C6. What the code does in the file-handle append: the name of the file, as it was
  presented to \<^verbatim>\<open>Open\<close>, goes into the header whole (escaped, with its directories); the
  final path component is not taken, as the example shows, where \<^verbatim>\<open>filepath.Base\<close> of the
  name differs from what is written.
\<close>

theorem CreateFormFile_writes_whole_name:
  assumes "healthy fb" and "Name f \<noteq> []" and "\<not> fails (content f)"
  shows "CreateFormFile fb fieldname (Some f) =
           (OK, wrote fb
                  (partBytes (boundary (writer fb)) (lastpart (writer fb) = None)
                     [(''Content-Disposition'',
                        [''form-data; name='' @ [dquote] @ escapeQuotes fieldname @ [dquote]
                         @ ''; filename='' @ [dquote] @ escapeQuotes (Name f) @ [dquote]]),
                      (''Content-Type'', [''application/octet-stream''])]
                     (concat (chunks (content f))))
                  (Some openPart))"
proof -
  have "goodReader (Some (content f))" using assms(3) by simp
  then show ?thesis
    using assms(1,2) by (simp add: CreateFormFile_def createFormFile_healthy)
qed

theorem CreateFormFile_writes_whole_name_witness:
  "CreateFormFile (NewFormBuilder \<lparr>written = [], limit = None\<rparr> [CHR 0x0A, CHR 0xFF]) ''file''
       (Some \<lparr>Name = ''/tmp/dir/cat.png'', content = \<lparr>chunks = [''PNG''], fails = False\<rparr>\<rparr>) =
     (OK, \<lparr>writer = \<lparr>w_sink = \<lparr>written =
        ''--0aff'' @ CRLF @
        ''Content-Disposition: form-data; name='' @ [dquote] @ ''file'' @ [dquote]
          @ ''; filename='' @ [dquote] @ ''/tmp/dir/cat.png'' @ [dquote] @ CRLF @
        ''Content-Type: application/octet-stream'' @ CRLF @ CRLF @ ''PNG'',
        limit = None\<rparr>, boundary = ''0aff'',
        lastpart = Some \<lparr>p_closed = False, p_we = None\<rparr>\<rparr>\<rparr>) \<and>
   Base ''/tmp/dir/cat.png'' = ''cat.png''"
proof -
  let ?f = "\<lparr>Name = ''/tmp/dir/cat.png'', content = \<lparr>chunks = [''PNG''], fails = False\<rparr>\<rparr>"
  have n: "Name ?f \<noteq> []" by simp
  have r: "\<not> fails (content ?f)" by simp
  note e = CreateFormFile_writes_whole_name
             [OF healthy_NewFormBuilder [of "[CHR 0x0A, CHR 0xFF]"] n r, of "''file''"]
  have b: "Base ''/tmp/dir/cat.png'' = ''cat.png''"
    by (simp add: Base_def IsPathSeparator_def)
  have w: "CreateFormFile (NewFormBuilder \<lparr>written = [], limit = None\<rparr> [CHR 0x0A, CHR 0xFF])
       ''file'' (Some ?f) =
     (OK, \<lparr>writer = \<lparr>w_sink = \<lparr>written =
        ''--0aff'' @ CRLF @
        ''Content-Disposition: form-data; name='' @ [dquote] @ ''file'' @ [dquote]
          @ ''; filename='' @ [dquote] @ ''/tmp/dir/cat.png'' @ [dquote] @ CRLF @
        ''Content-Type: application/octet-stream'' @ CRLF @ CRLF @ ''PNG'',
        limit = None\<rparr>, boundary = ''0aff'',
        lastpart = Some \<lparr>p_closed = False, p_we = None\<rparr>\<rparr>\<rparr>)"
    unfolding e by (simp add: eval_defs)
  show ?thesis using w b by (rule conjI)
qed

text \<open>
  C7. The file-handle append with a file whose name is empty returns the error
  \<^verbatim>\<open>filename cannot be empty\<close> and leaves the builder as it was: nothing is written.
\<close>

theorem CreateFormFile_empty_name_rejected:
  "Name f = [] \<Longrightarrow>
   CreateFormFile fb fieldname (Some f) = (Err (ErrorMsg ''filename cannot be empty''), fb)"
  by (simp add: CreateFormFile_def createFormFile_def)

theorem CreateFormFile_empty_name_rejected_witness:
  "CreateFormFile (NewFormBuilder \<lparr>written = [], limit = None\<rparr> [CHR 0x0A, CHR 0xFF]) ''file''
       (Some \<lparr>Name = [], content = \<lparr>chunks = [''PNG''], fails = False\<rparr>\<rparr>) =
     (Err (ErrorMsg ''filename cannot be empty''),
      \<lparr>writer = \<lparr>w_sink = \<lparr>written = [], limit = None\<rparr>, boundary = ''0aff'', lastpart = None\<rparr>\<rparr>)"
proof -
  let ?f = "\<lparr>Name = [], content = \<lparr>chunks = [''PNG''], fails = False\<rparr>\<rparr>"
  have n: "Name ?f = []" by simp
  show ?thesis
    unfolding CreateFormFile_empty_name_rejected [OF n]
    by (simp add: eval_defs)
qed

section \<open>The content type of a file part\<close>

text \<open>
  C3. The header of a part made by \<^verbatim>\<open>CreateFormFileReaderWithContentType\<close> has a
  \<^verbatim>\<open>Content-Type\<close> entry exactly when the parser returns no error for the content type
  given, and its value is then the media type the parser returned; the header block
  written has the \<^verbatim>\<open>Content-Type\<close> line in that case and no such line otherwise. A content
  type that does not parse is no error of the call: on a sink that accepts every write and
  with a byte source that can be read, the call returns nil either way.
\<close>

theorem Content_Type_iff_parsed:
  "Get_all (fileHeader pmt fieldname filename contentType) ''Content-Type'' =
     (case pmt contentType of (mediaType, None) \<Rightarrow> [mediaType] | (mediaType, Some e) \<Rightarrow> []) \<and>
   header_lines (fileHeader pmt fieldname filename contentType) =
     ''Content-Disposition: form-data; name='' @ [dquote] @ escapeQuotes fieldname @ [dquote]
       @ ''; filename='' @ [dquote] @ escapeQuotes (Base filename) @ [dquote] @ CRLF
     @ (case pmt contentType of
          (mediaType, None) \<Rightarrow> ''Content-Type: '' @ mediaType @ CRLF
        | (mediaType, Some e) \<Rightarrow> []) \<and>
   (healthy fb \<and> goodReader r \<longrightarrow>
      CreateFormFileReaderWithContentType pmt fb fieldname r filename contentType =
        (OK, wrote fb
               (partBytes (boundary (writer fb)) (lastpart (writer fb) = None)
                  (fileHeader pmt fieldname filename contentType) (readerBytes r))
               (Some openPart)))"
proof (intro conjI impI)
  show "Get_all (fileHeader pmt fieldname filename contentType) ''Content-Type'' =
     (case pmt contentType of (mediaType, None) \<Rightarrow> [mediaType] | (mediaType, Some e) \<Rightarrow> [])"
    by (simp add: fileHeader_eq Get_all_def split: prod.splits option.splits)
next
  show "header_lines (fileHeader pmt fieldname filename contentType) =
     ''Content-Disposition: form-data; name='' @ [dquote] @ escapeQuotes fieldname @ [dquote]
       @ ''; filename='' @ [dquote] @ escapeQuotes (Base filename) @ [dquote] @ CRLF
     @ (case pmt contentType of
          (mediaType, None) \<Rightarrow> ''Content-Type: '' @ mediaType @ CRLF
        | (mediaType, Some e) \<Rightarrow> [])"
    by (simp add: fileHeader_eq header_lines_one header_lines_two split: prod.splits option.splits)
next
  assume "healthy fb \<and> goodReader r"
  then show "CreateFormFileReaderWithContentType pmt fb fieldname r filename contentType =
        (OK, wrote fb
               (partBytes (boundary (writer fb)) (lastpart (writer fb) = None)
                  (fileHeader pmt fieldname filename contentType) (readerBytes r))
               (Some openPart))"
    by (simp add: CreateFormFileReaderWithContentType_healthy)
qed

theorem Content_Type_iff_parsed_witness:
  "Get_all (fileHeader exampleParser ''image'' ''a.png'' ''image/png'') ''Content-Type'' = [''image/png''] \<and>
   Get_all (fileHeader exampleParser ''image'' ''a.png'' ''not/a/valid/type;;;'') ''Content-Type'' = [] \<and>
   CreateFormFileReaderWithContentType exampleParser
       (NewFormBuilder \<lparr>written = [], limit = None\<rparr> [CHR 0x0A, CHR 0xFF]) ''image''
       (Some \<lparr>chunks = [''PNG''], fails = False\<rparr>) ''a.png'' ''not/a/valid/type;;;'' =
     (OK, \<lparr>writer = \<lparr>w_sink = \<lparr>written =
        ''--0aff'' @ CRLF @
        ''Content-Disposition: form-data; name='' @ [dquote] @ ''image'' @ [dquote]
          @ ''; filename='' @ [dquote] @ ''a.png'' @ [dquote] @ CRLF @ CRLF @ ''PNG'',
        limit = None\<rparr>, boundary = ''0aff'',
        lastpart = Some \<lparr>p_closed = False, p_we = None\<rparr>\<rparr>\<rparr>)"
proof -
  let ?fb = "NewFormBuilder \<lparr>written = [], limit = None\<rparr> [CHR 0x0A, CHR 0xFF]"
  let ?r = "Some \<lparr>chunks = [''PNG''], fails = False\<rparr>"
  have a: "Get_all (fileHeader exampleParser ''image'' ''a.png'' ''image/png'') ''Content-Type'' =
             (case exampleParser ''image/png'' of
                (mediaType, None) \<Rightarrow> [mediaType] | (mediaType, Some e) \<Rightarrow> [])"
    using Content_Type_iff_parsed [of exampleParser "''image''" "''a.png''" "''image/png''"]
    by (rule conjunct1)
  have b: "Get_all (fileHeader exampleParser ''image'' ''a.png'' ''not/a/valid/type;;;'') ''Content-Type'' =
             (case exampleParser ''not/a/valid/type;;;'' of
                (mediaType, None) \<Rightarrow> [mediaType] | (mediaType, Some e) \<Rightarrow> [])"
    using Content_Type_iff_parsed [of exampleParser "''image''" "''a.png''" "''not/a/valid/type;;;''"]
    by (rule conjunct1)
  have g: "healthy ?fb \<and> goodReader ?r" by (simp add: healthy_NewFormBuilder)
  have c: "CreateFormFileReaderWithContentType exampleParser ?fb ''image'' ?r ''a.png''
             ''not/a/valid/type;;;'' =
           (OK, wrote ?fb
               (partBytes (boundary (writer ?fb)) (lastpart (writer ?fb) = None)
                  (fileHeader exampleParser ''image'' ''a.png'' ''not/a/valid/type;;;'') (readerBytes ?r))
               (Some openPart))"
    using Content_Type_iff_parsed
            [of exampleParser "''image''" "''a.png''" "''not/a/valid/type;;;''" ?fb ?r] g
    by blast
  have a': "Get_all (fileHeader exampleParser ''image'' ''a.png'' ''image/png'') ''Content-Type'' = [''image/png'']"
    unfolding a by (simp add: exampleParser_def)
  have b': "Get_all (fileHeader exampleParser ''image'' ''a.png'' ''not/a/valid/type;;;'') ''Content-Type'' = []"
    unfolding b by (simp add: exampleParser_def)
  have c': "CreateFormFileReaderWithContentType exampleParser ?fb ''image'' ?r ''a.png''
             ''not/a/valid/type;;;'' =
     (OK, \<lparr>writer = \<lparr>w_sink = \<lparr>written =
        ''--0aff'' @ CRLF @
        ''Content-Disposition: form-data; name='' @ [dquote] @ ''image'' @ [dquote]
          @ ''; filename='' @ [dquote] @ ''a.png'' @ [dquote] @ CRLF @ CRLF @ ''PNG'',
        limit = None\<rparr>, boundary = ''0aff'',
        lastpart = Some \<lparr>p_closed = False, p_we = None\<rparr>\<rparr>\<rparr>)"
    unfolding c by (simp add: eval_defs IsPathSeparator_def)
  show ?thesis using a' b' c' by (intro conjI)
qed

section \<open>Calls after \<^verbatim>\<open>Close\<close>\<close>





section \<open>The boundary\<close>

subsection \<open>The boundary never changes\<close>

lemma Write_part_boundary: "boundary (snd (Write_part mw d)) = boundary mw"
  by (simp add: Write_part_def split: option.splits prod.splits outcome.splits)

lemma CreatePart_boundary: "boundary (snd (CreatePart mw h)) = boundary mw"
  by (simp add: CreatePart_def split: option.splits prod.splits outcome.splits)

lemma copy_chunks_boundary: "boundary (snd (copy_chunks mw cs)) = boundary mw"
proof (induction cs arbitrary: mw)
  case Nil
  show ?case by simp
next
  case (Cons c cs)
  show ?case
  proof (cases "Write_part mw c")
    case (Pair r mw')
    have "boundary mw' = boundary mw"
      using Write_part_boundary [of mw c] Pair by simp
    then show ?thesis
      using Pair Cons.IH by (cases r) simp_all
  qed
qed

lemma io_Copy_boundary: "boundary (snd (io_Copy mw r)) = boundary mw"
proof (cases r)
  case None
  then show ?thesis by (simp add: io_Copy_def)
next
  case (Some rd)
  obtain res mw' where c: "copy_chunks mw (chunks rd) = (res, mw')"
    by (cases "copy_chunks mw (chunks rd)")
  have "boundary mw' = boundary mw"
    using copy_chunks_boundary [of mw "chunks rd"] c by simp
  then show ?thesis
    using Some c by (cases res) (simp_all add: io_Copy_def)
qed

lemma part_then_copy_boundary:
  "boundary (writer (snd (case CreatePart (writer fb) h of
        (OK, mw) \<Rightarrow> (case io_Copy mw r of (res, mw') \<Rightarrow> (res, fb\<lparr>writer := mw'\<rparr>))
      | (e, mw) \<Rightarrow> (e, fb\<lparr>writer := mw\<rparr>)))) = boundary (writer fb)"
proof (cases "CreatePart (writer fb) h")
  case (Pair res mw)
  have b: "boundary mw = boundary (writer fb)"
    using CreatePart_boundary [of "writer fb" h] Pair by simp
  obtain res' mw' where c: "io_Copy mw r = (res', mw')" by (cases "io_Copy mw r")
  have "boundary mw' = boundary mw" using io_Copy_boundary [of mw r] c by simp
  then show ?thesis using Pair b c by (cases res) simp_all
qed

lemma CreateFormFileReaderWithContentType_boundary:
  "boundary (writer (snd (CreateFormFileReaderWithContentType pmt fb fieldname r filename ct)))
     = boundary (writer fb)"
  unfolding CreateFormFileReaderWithContentType_def by (rule part_then_copy_boundary)

lemma createFormFile_boundary:
  "boundary (writer (snd (createFormFile fb fieldname r filename))) = boundary (writer fb)"
  unfolding createFormFile_def Writer_CreateFormFile_def
  by (simp add: part_then_copy_boundary)

lemma CreateFormFile_boundary:
  "boundary (writer (snd (CreateFormFile fb fieldname fh))) = boundary (writer fb)"
  by (cases fh) (simp_all add: CreateFormFile_def createFormFile_boundary)

lemma WriteField_boundary:
  "boundary (writer (snd (WriteField fb fieldname val))) = boundary (writer fb)"
proof (cases "CreatePart (writer fb)
        [(''Content-Disposition'', [''form-data; name='' @ [dquote] @ escapeQuotes fieldname @ [dquote]])]")
  case (Pair res mw)
  have b: "boundary mw = boundary (writer fb)"
    using CreatePart_boundary [of "writer fb"] Pair by (metis snd_conv)
  obtain res' mw' where c: "Write_part mw val = (res', mw')" by (cases "Write_part mw val")
  have "boundary mw' = boundary mw" using Write_part_boundary [of mw val] c by simp
  then show ?thesis
    using Pair b c
    by (cases res) (simp_all add: WriteField_def Writer_WriteField_def CreateFormField_def)
qed

lemma Close_boundary: "boundary (writer (snd (Close fb))) = boundary (writer fb)"
  by (simp add: Close_def Writer_Close_def split: option.splits prod.splits)

lemma call1_boundary: "boundary (writer (snd (call1 pmt fb k))) = boundary (writer fb)"
proof (cases k)
  case (Append f)
  then show ?thesis
    by (cases f)
       (simp_all add: CreateFormFileReaderWithContentType_boundary CreateFormFile_boundary
         WriteField_boundary)
next
  case CloseCall
  then show ?thesis by (simp add: Close_boundary)
qed

lemma run_boundary: "boundary (writer (run pmt fb ks)) = boundary (writer fb)"
  by (induction ks arbitrary: fb) (simp_all add: call1_boundary)

subsection \<open>The random boundary needs no quotes\<close>

lemma hexByte_chars: "set (hexByte c) \<subseteq> set ''0123456789abcdef''"
proof -
  have n: "k < 16 \<Longrightarrow> ''0123456789abcdef'' ! k \<in> set ''0123456789abcdef''" for k
    by (rule nth_mem) simp
  have two: "set [x, y] \<subseteq> S" if "x \<in> S" "y \<in> S" for x y :: char and S
    using that by simp
  have hi: "(of_char c :: nat) div 16 < 16"
    by (rule less_mult_imp_div_less) simp
  have lo: "(of_char c :: nat) mod 16 < 16" by simp
  show ?thesis
    unfolding hexByte_def by (rule two) (rule n [OF hi], rule n [OF lo])
qed

lemma set_concat_map_subset:
  "(\<And>x. set (f x) \<subseteq> S) \<Longrightarrow> set (concat (map f xs)) \<subseteq> S"
  by (induction xs) auto

lemma randomBoundary_chars: "set (randomBoundary rnd) \<subseteq> set ''0123456789abcdef''"
  unfolding randomBoundary_def by (rule set_concat_map_subset) (rule hexByte_chars)

lemma hex_digit_not_special:
  "c \<in> set ''0123456789abcdef'' \<Longrightarrow>
   c \<notin> set (''()<>@,;:'' @ [backslash, dquote] @ ''/[]?= '')"
  by (auto simp: backslash_def dquote_def)

lemma randomBoundary_plain: "\<not> needsQuoting (randomBoundary rnd)"
proof
  assume a: "needsQuoting (randomBoundary rnd)"
  have "\<exists>c \<in> set (randomBoundary rnd).
          c \<in> set (''()<>@,;:'' @ [backslash, dquote] @ ''/[]?= '')"
    using a unfolding needsQuoting_def list_ex_iff .
  then obtain c where c: "c \<in> set (randomBoundary rnd)"
      "c \<in> set (''()<>@,;:'' @ [backslash, dquote] @ ''/[]?= '')"
    by blast
  from c(1) have "c \<in> set ''0123456789abcdef''" using randomBoundary_chars by blast
  then show False using c(2) hex_digit_not_special by blast
qed

subsection \<open>The content type of the request\<close>

lemma run_append: "run pmt fb (ks @ ks') = run pmt (run pmt fb ks) ks'"
  by (induction ks arbitrary: fb) simp_all

lemma run_appends_OK:
  "appendAll pmt fb fs = (OK, fb') \<Longrightarrow> run pmt fb (map Append fs) = fb'"
proof (induction fs arbitrary: fb)
  case Nil
  then show ?case by simp
next
  case (Cons f fs)
  obtain r fb1 where s: "appendField pmt fb f = (r, fb1)" by (cases "appendField pmt fb f")
  have r: "r = OK" using Cons.prems s by (cases r) simp_all
  have "appendAll pmt fb1 fs = (OK, fb')" using Cons.prems s r by simp
  then have "run pmt fb1 (map Append fs) = fb'" by (rule Cons.IH)
  then show ?case using s by simp
qed

lemma FormDataContentType_plain:
  "\<not> needsQuoting (boundary (writer fb)) \<Longrightarrow>
   FormDataContentType fb = ''multipart/form-data; boundary='' @ boundary (writer fb)"
  by (simp add: FormDataContentType_def Writer_FormDataContentType_def)

lemma boundary_NewFormBuilder: "boundary (writer (NewFormBuilder s rnd)) = randomBoundary rnd"
  by (simp add: NewFormBuilder_def NewWriter_def)

text \<open>
  C8. The builder gets its boundary when it is made (the hexadecimal print of the random
  bytes), and no call changes it: after any calls whatever, \<^verbatim>\<open>FormDataContentType\<close>
  returns \<^verbatim>\<open>multipart/form-data; boundary=\<close> followed by that boundary, as it does right
  after construction. The same boundary delimits every part of the body and stands in the
  terminal marker.
\<close>

theorem FormDataContentType_fixed_boundary:
  "FormDataContentType (NewFormBuilder s rnd) =
     ''multipart/form-data; boundary='' @ randomBoundary rnd \<and>
   FormDataContentType (run pmt (NewFormBuilder s rnd) ks) =
     ''multipart/form-data; boundary='' @ randomBoundary rnd \<and>
   boundary (writer (run pmt (NewFormBuilder s rnd) ks)) = randomBoundary rnd \<and>
   (list_all goodField fs \<longrightarrow>
      run pmt (NewFormBuilder \<lparr>written = [], limit = None\<rparr> rnd) (map Append fs @ [CloseCall]) =
        wrote (NewFormBuilder \<lparr>written = [], limit = None\<rparr> rnd)
          (encodeFields pmt (randomBoundary rnd) True fs @ terminalMarker (randomBoundary rnd))
          None)"
proof (intro conjI impI)
  show "FormDataContentType (NewFormBuilder s rnd) =
     ''multipart/form-data; boundary='' @ randomBoundary rnd"
    by (simp add: FormDataContentType_plain boundary_NewFormBuilder randomBoundary_plain)
next
  have b: "boundary (writer (run pmt (NewFormBuilder s rnd) ks)) = randomBoundary rnd"
    by (simp add: run_boundary boundary_NewFormBuilder)
  then show "boundary (writer (run pmt (NewFormBuilder s rnd) ks)) = randomBoundary rnd" .
  show "FormDataContentType (run pmt (NewFormBuilder s rnd) ks) =
     ''multipart/form-data; boundary='' @ randomBoundary rnd"
    using b by (simp add: FormDataContentType_plain randomBoundary_plain)
next
  let ?fb = "NewFormBuilder \<lparr>written = [], limit = None\<rparr> rnd"
  let ?b = "randomBoundary rnd"
  assume g: "list_all goodField fs"
  have n: "lastpart (writer ?fb) = None" by (simp add: NewFormBuilder_def NewWriter_def)
  let ?fb1 = "wrote ?fb (encodeFields pmt ?b True fs) (if fs = [] then None else Some openPart)"
  have a: "appendAll pmt ?fb fs = (OK, ?fb1)"
    using appendAll_healthy [OF healthy_NewFormBuilder [of rnd] g, of pmt] n
    by (simp add: boundary_NewFormBuilder)
  have r: "run pmt ?fb (map Append fs) = ?fb1" using a by (rule run_appends_OK)
  have h: "healthy ?fb1"
    by (cases "fs = []") (simp_all add: healthy_wrote healthy_wrote_None healthy_NewFormBuilder)
  have "Close ?fb1 = (OK, wrote ?fb1 (terminalMarker (boundary (writer ?fb1))) None)"
    using h by (rule Close_healthy)
  then have "Close ?fb1 = (OK, wrote ?fb (encodeFields pmt ?b True fs @ terminalMarker ?b) None)"
    by (simp add: wrote_simps wrote_wrote boundary_NewFormBuilder)
  then show "run pmt ?fb (map Append fs @ [CloseCall]) =
        wrote ?fb (encodeFields pmt ?b True fs @ terminalMarker ?b) None"
    by (simp add: run_append r)
qed

theorem FormDataContentType_fixed_boundary_witness:
  "FormDataContentType
     (run exampleParser (NewFormBuilder \<lparr>written = [], limit = None\<rparr> [CHR 0x0A, CHR 0xFF])
        [Append (PlainField ''prompt'' ''a cat''), Append (PlainField ''n'' ''2''), CloseCall]) =
     ''multipart/form-data; boundary=0aff'' \<and>
   run exampleParser (NewFormBuilder \<lparr>written = [], limit = None\<rparr> [CHR 0x0A, CHR 0xFF])
        [Append (PlainField ''prompt'' ''a cat''), Append (PlainField ''n'' ''2''), CloseCall] =
     \<lparr>writer = \<lparr>w_sink = \<lparr>written =
        ''--0aff'' @ CRLF @
        ''Content-Disposition: form-data; name='' @ [dquote] @ ''prompt'' @ [dquote] @ CRLF @ CRLF @
        ''a cat'' @ CRLF @
        ''--0aff'' @ CRLF @
        ''Content-Disposition: form-data; name='' @ [dquote] @ ''n'' @ [dquote] @ CRLF @ CRLF @
        ''2'' @ CRLF @
        ''--0aff--'' @ CRLF,
        limit = None\<rparr>, boundary = ''0aff'', lastpart = None\<rparr>\<rparr>"
proof -
  let ?fb = "NewFormBuilder \<lparr>written = [], limit = None\<rparr> [CHR 0x0A, CHR 0xFF]"
  let ?fs = "[PlainField ''prompt'' ''a cat'', PlainField ''n'' ''2'']"
  let ?ks = "[Append (PlainField ''prompt'' ''a cat''), Append (PlainField ''n'' ''2''), CloseCall]"
  note t = FormDataContentType_fixed_boundary
             [where s = "\<lparr>written = [], limit = None\<rparr>" and rnd = "[CHR 0x0A, CHR 0xFF]"
                and pmt = exampleParser and ks = ?ks and fs = ?fs]
  have g: "list_all goodField ?fs" by simp
  have k: "?ks = map Append ?fs @ [CloseCall]" by simp
  have 1: "FormDataContentType (run exampleParser ?fb ?ks) =
             ''multipart/form-data; boundary='' @ randomBoundary [CHR 0x0A, CHR 0xFF]"
    using t by blast
  have 2: "run exampleParser ?fb (map Append ?fs @ [CloseCall]) =
        wrote ?fb (encodeFields exampleParser (randomBoundary [CHR 0x0A, CHR 0xFF]) True ?fs
                   @ terminalMarker (randomBoundary [CHR 0x0A, CHR 0xFF])) None"
    using t g by blast
  have a1: "FormDataContentType (run exampleParser ?fb ?ks) = ''multipart/form-data; boundary=0aff''"
    unfolding 1 by (simp add: randomBoundary_def hexByte_def)
  have a2: "run exampleParser ?fb ?ks =
     \<lparr>writer = \<lparr>w_sink = \<lparr>written =
        ''--0aff'' @ CRLF @
        ''Content-Disposition: form-data; name='' @ [dquote] @ ''prompt'' @ [dquote] @ CRLF @ CRLF @
        ''a cat'' @ CRLF @
        ''--0aff'' @ CRLF @
        ''Content-Disposition: form-data; name='' @ [dquote] @ ''n'' @ [dquote] @ CRLF @ CRLF @
        ''2'' @ CRLF @
        ''--0aff--'' @ CRLF,
        limit = None\<rparr>, boundary = ''0aff'', lastpart = None\<rparr>\<rparr>"
    unfolding k 2 by (simp add: eval_defs)
  show ?thesis using a1 a2 by (rule conjI)
qed

section \<open>Properties of the image endpoints\<close>

text \<open>
  C9. \<^verbatim>\<open>CreateMultiEditImage\<close> on a request with no images returns the zero response and
  a nil error; it makes no form builder and sends no request.
\<close>

theorem CreateMultiEditImage_no_images:
  "Images request = [] \<Longrightarrow>
   CreateMultiEditImage c pmt rnd request =
     \<lparr>response = zero_ImageResponse, err = OK, form = None, sent = []\<rparr>"
  by (simp add: CreateMultiEditImage_def)

theorem CreateMultiEditImage_no_images_witness:
  "CreateMultiEditImage
     \<lparr>fullURL = (\<lambda>suffix model. ''https://api.example/v1'' @ suffix),
      newRequest = (\<lambda>method url bytes ct. Inr (method, url, bytes, ct)),
      sendRequest = (\<lambda>req resp. (None, resp\<lparr>Created := 1\<rparr>))\<rparr>
     exampleParser [CHR 0x0A, CHR 0xFF]
     \<lparr>Images = [], MPrompt = ''a cat'', MModel = ''gpt-image-1'', MN = 2, MSize = ''1024x1024'',
      MResponseFormat = [], MQuality = ''high'', MUser = ''u1''\<rparr> =
   \<lparr>response = zero_ImageResponse, err = OK, form = None, sent = []\<rparr>"
proof -
  let ?rq = "\<lparr>Images = [], MPrompt = ''a cat'', MModel = ''gpt-image-1'', MN = 2,
      MSize = ''1024x1024'', MResponseFormat = [], MQuality = ''high'', MUser = ''u1''\<rparr>"
  have i: "Images ?rq = []" by simp
  show ?thesis by (rule CreateMultiEditImage_no_images [OF i])
qed

subsection \<open>The fields of the edit forms\<close>












end
